theory Spec2Isabelle
  imports Main "HOL-Library.Sublist"
begin

section \<open>Values of the host language\<close>

text \<open>
  The payload of a \<open>Result\<close> is any JavaScript value, and \<open>formatValue\<close> takes a value
  of type \<open>unknown\<close>. The values are modelled as a datatype. Finite numbers are a type
  parameter \<open>'n\<close>, and their textual form (\<open>Number::toString\<close>) is a parameter \<open>numstr\<close> of
  every function that needs it: the model does not compute with floating point. \<open>NaN\<close>
  and the two infinities are constructors of their own. Strings are lists of characters,
  one per code unit (the code units up to \<open>0xFF\<close>).

  \<^item> \<open>JFunction c\<close> is a function with no property of its own. The formatter calls a
    function of the payload in one place only, as the \<open>toJSON\<close> method of an object that
    is serialised; \<open>c\<close> is what that call gives: it returns a value or throws.
  \<^item> \<open>JArray vs\<close> is an array with the elements \<open>vs\<close> and no other property.
  \<^item> \<open>JObject kvs\<close> is an ordinary object without accessor properties and without a
    \<open>Symbol.toStringTag\<close>. \<open>kvs\<close> are its enumerable string-keyed data properties in
    enumeration order; its \<open>toJSON\<close> method, its own or inherited, is the function listed
    under the key \<open>toJSON\<close>, if one is.
  \<^item> \<open>JCyclicArray\<close> and \<open>JCyclicObject\<close> are an array and an object whose graph
    contains a cycle. Their contents are left out: \<open>JSON.stringify\<close> throws on them,
    and \<open>Object.prototype.toString\<close> does not look at contents.
  \<^item> \<open>JRevokedProxy\<close> is a revoked \<open>Proxy\<close>: \<open>typeof\<close> gives \<open>object\<close>, and every
    operation on it throws a \<open>TypeError\<close>.
  \<^item> \<open>JExotic s t\<close> is any other object: one with accessor properties, a
    \<open>Symbol.toStringTag\<close>, proxy traps, properties on an array or a function, a wrapper
    object. The formatter reaches an object through \<open>JSON.stringify\<close> and
    \<open>Object.prototype.toString.call\<close> only, and the object is given by what the two do
    on it where it stands in the payload: \<open>s ind\<close> is the outcome of the serialiser on
    it at the indentation \<open>ind\<close>, and \<open>t\<close> is the text
    \<open>Object.prototype.toString.call\<close> returns or the exception it throws. It stands
    anywhere but as the \<open>toJSON\<close> method of a \<open>JObject\<close>, which is a \<open>JFunction\<close>.
\<close>

datatype 'v js_call = Returns 'v | Throws

text \<open>
  The three outcomes of \<open>JSON.stringify\<close>: it returns a string, it returns \<open>undefined\<close>,
  or it throws. \<open>formatValue\<close> catches the throw and drops what was thrown.
\<close>

datatype json_outcome = Serialized string | NotSerialized | Thrown

text \<open>An exception that is not an \<open>UnwrapError\<close>: a \<open>TypeError\<close> of a built-in, or what
  code of the caller's threw, by a description.\<close>

datatype js_exception = TypeError | Thrown_by_caller string

datatype 'n jsval =
    JUndefined
  | JNull
  | JBool bool
  | JNum 'n
  | JNaN
  | JInfinity
  | JNegInfinity
  | JStr string
  | JBigInt int
  | JSymbol string
  | JFunction "'n jsval js_call"
  | JArray "'n jsval list"
  | JObject "(string \<times> 'n jsval) list"
  | JCyclicArray
  | JCyclicObject
  | JRevokedProxy
  | JExotic "string \<Rightarrow> json_outcome" "js_exception + string"

subsection \<open>\<open>JSON.stringify(value, null, 2)\<close>\<close>

definition hexdigit :: "nat \<Rightarrow> char" where
  "hexdigit d = (if d < 10 then char_of (48 + d) else char_of (87 + d))"

text \<open>\<open>QuoteJSONString\<close>: the two-character escapes, \<open>\u00XX\<close> for the other control
  characters, every other character as it is.\<close>

definition escape_char :: "char \<Rightarrow> string" where
  "escape_char c =
     (if c = CHR 0x08 then [CHR 0x5C, CHR ''b'']
      else if c = CHR 0x09 then [CHR 0x5C, CHR ''t'']
      else if c = CHR 0x0A then [CHR 0x5C, CHR ''n'']
      else if c = CHR 0x0C then [CHR 0x5C, CHR ''f'']
      else if c = CHR 0x0D then [CHR 0x5C, CHR ''r'']
      else if c = CHR 0x22 then [CHR 0x5C, CHR 0x22]
      else if c = CHR 0x5C then [CHR 0x5C, CHR 0x5C]
      else if (of_char c :: nat) < 32
        then [CHR 0x5C, CHR ''u'', CHR ''0'', CHR ''0'',
              hexdigit (of_char c div 16), hexdigit (of_char c mod 16)]
      else [c])"

definition QuoteJSONString :: "string \<Rightarrow> string" where
  "QuoteJSONString s = [CHR 0x22] @ concat (map escape_char s) @ [CHR 0x22]"

fun join :: "string \<Rightarrow> string list \<Rightarrow> string" where
  "join sep [] = []"
| "join sep [x] = x"
| "join sep (x # y # ys) = x @ sep @ join sep (y # ys)"

text \<open>The gap of \<open>JSON.stringify(value, null, 2)\<close> is two spaces.\<close>

definition gap :: string where
  "gap = ''  ''"

definition wrap_items :: "char \<Rightarrow> char \<Rightarrow> string \<Rightarrow> string list \<Rightarrow> string" where
  "wrap_items opening closing stepback items =
     (if items = [] then [opening, closing]
      else [opening, CHR 0x0A] @ stepback @ gap
           @ join ([CHR '','', CHR 0x0A] @ stepback @ gap) items
           @ [CHR 0x0A] @ stepback @ [closing])"

text \<open>In an array, an element that has no serialisation is written \<open>null\<close>; in an
  object, such a property is left out.\<close>

fun array_item :: "json_outcome \<Rightarrow> string" where
  "array_item (Serialized s) = s"
| "array_item _ = ''null''"

fun object_members :: "(string \<times> json_outcome) list \<Rightarrow> string list" where
  "object_members [] = []"
| "object_members ((k, Serialized s) # ms) =
     (QuoteJSONString k @ '': '' @ s) # object_members ms"
| "object_members (_ # ms) = object_members ms"

text \<open>
  The first step of \<open>SerializeJSONProperty\<close>: when the value is an object with a callable
  \<open>toJSON\<close>, the method is called and what it returns takes the place of the value.
\<close>

fun toJSON_called :: "'n jsval \<Rightarrow> 'n jsval js_call" where
  "toJSON_called (JObject kvs) =
     (case map_of kvs ''toJSON'' of
        Some (JFunction c) \<Rightarrow> c
      | _ \<Rightarrow> Returns (JObject kvs))"
| "toJSON_called v = Returns v"

text \<open>
  The rest of \<open>SerializeJSONProperty\<close>, on the value that step left, at the indentation
  \<open>ind\<close>. The elements of an array and the properties of an object go through the first
  step each. A BigInt, a cycle and a revoked proxy make the whole call throw.
\<close>

function serialize_value :: "('n \<Rightarrow> string) \<Rightarrow> string \<Rightarrow> 'n jsval \<Rightarrow> json_outcome" where
  "serialize_value numstr ind JNull = Serialized ''null''"
| "serialize_value numstr ind (JBool b) = Serialized (if b then ''true'' else ''false'')"
| "serialize_value numstr ind (JStr s) = Serialized (QuoteJSONString s)"
| "serialize_value numstr ind (JNum n) = Serialized (numstr n)"
| "serialize_value numstr ind JNaN = Serialized ''null''"
| "serialize_value numstr ind JInfinity = Serialized ''null''"
| "serialize_value numstr ind JNegInfinity = Serialized ''null''"
| "serialize_value numstr ind (JBigInt i) = Thrown"
| "serialize_value numstr ind JCyclicArray = Thrown"
| "serialize_value numstr ind JCyclicObject = Thrown"
| "serialize_value numstr ind JRevokedProxy = Thrown"
| "serialize_value numstr ind (JExotic s t) = s ind"
| "serialize_value numstr ind (JArray vs) =
     (let parts = map (\<lambda>x. case toJSON_called x of
                              Throws \<Rightarrow> Thrown
                            | Returns x' \<Rightarrow> serialize_value numstr (ind @ gap) x') vs
      in if Thrown \<in> set parts then Thrown
         else Serialized (wrap_items (CHR ''['') (CHR '']'') ind (map array_item parts)))"
| "serialize_value numstr ind (JObject kvs) =
     (let parts = map (\<lambda>(k, x). (k, case toJSON_called x of
                                       Throws \<Rightarrow> Thrown
                                     | Returns x' \<Rightarrow> serialize_value numstr (ind @ gap) x')) kvs
      in if Thrown \<in> snd ` set parts then Thrown
         else Serialized (wrap_items (CHR ''{'') (CHR ''}'') ind (object_members parts)))"
| "serialize_value numstr ind JUndefined = NotSerialized"
| "serialize_value numstr ind (JSymbol d) = NotSerialized"
| "serialize_value numstr ind (JFunction c) = NotSerialized"
  by pat_completeness auto
termination
proof (relation "measure (\<lambda>(numstr, ind, v). size v)")
  have listed: "size v < Suc (size_list (size_prod (\<lambda>_. 0) size) kvs)"
    if "map_of kvs k = Some v" for kvs :: "(string \<times> 'n jsval) list" and k v
    using that by (induction kvs) (auto split: if_splits)
  have smaller: "size x' \<le> size x" if r: "toJSON_called x = Returns x'" for x x' :: "'n jsval"
  proof (cases x)
    case (JObject kvs)
    show ?thesis
    proof (cases "map_of kvs ''toJSON''")
      case None
      with r JObject show ?thesis
        by simp
    next
      case (Some w)
      then show ?thesis
        using r JObject listed [OF Some]
        by (cases w) (auto split: js_call.splits)
    qed
  qed (use r in auto)
  show "wf (measure (\<lambda>(numstr, ind, v). size v))"
    by simp
  show "((numstr, ind @ gap, x'), (numstr, ind, JArray vs)) \<in> measure (\<lambda>(numstr, ind, v). size v)"
    if "x \<in> set vs" "toJSON_called x = Returns x'"
    for numstr :: "'n \<Rightarrow> string" and ind and vs :: "'n jsval list" and x x'
    using that smaller [of x x'] size_list_estimation' [of x vs "size x" size]
    by (auto simp: less_Suc_eq_le)
  show "((numstr, ind @ gap, x'), (numstr, ind, JObject kvs)) \<in> measure (\<lambda>(numstr, ind, v). size v)"
    if "kx \<in> set kvs" "(k, x) = kx" "toJSON_called x = Returns x'"
    for numstr :: "'n \<Rightarrow> string" and ind and kvs :: "(string \<times> 'n jsval) list" and kx k x x'
    using that smaller [of x x'] size_list_estimation' [of kx kvs "size x" "size_prod (\<lambda>_. 0) size"]
    by (auto simp: less_Suc_eq_le)
qed

definition SerializeJSONProperty :: "('n \<Rightarrow> string) \<Rightarrow> string \<Rightarrow> 'n jsval \<Rightarrow> json_outcome" where
  "SerializeJSONProperty numstr ind v =
     (case toJSON_called v of
        Throws \<Rightarrow> Thrown
      | Returns v' \<Rightarrow> serialize_value numstr ind v')"

definition JSON_stringify :: "('n \<Rightarrow> string) \<Rightarrow> 'n jsval \<Rightarrow> json_outcome" where
  "JSON_stringify numstr v = SerializeJSONProperty numstr [] v"

subsection \<open>\<open>Object.prototype.toString.call(value)\<close>\<close>

text \<open>It returns the type tag, or throws: the left summand is the exception.\<close>

fun Object_toString :: "'n jsval \<Rightarrow> js_exception + string" where
  "Object_toString JUndefined = Inr ''[object Undefined]''"
| "Object_toString JNull = Inr ''[object Null]''"
| "Object_toString (JBool b) = Inr ''[object Boolean]''"
| "Object_toString (JNum n) = Inr ''[object Number]''"
| "Object_toString JNaN = Inr ''[object Number]''"
| "Object_toString JInfinity = Inr ''[object Number]''"
| "Object_toString JNegInfinity = Inr ''[object Number]''"
| "Object_toString (JStr s) = Inr ''[object String]''"
| "Object_toString (JBigInt i) = Inr ''[object BigInt]''"
| "Object_toString (JSymbol d) = Inr ''[object Symbol]''"
| "Object_toString (JFunction c) = Inr ''[object Function]''"
| "Object_toString (JArray vs) = Inr ''[object Array]''"
| "Object_toString JCyclicArray = Inr ''[object Array]''"
| "Object_toString (JObject kvs) = Inr ''[object Object]''"
| "Object_toString JCyclicObject = Inr ''[object Object]''"
| "Object_toString JRevokedProxy = Inl TypeError"
| "Object_toString (JExotic s t) = t"

section \<open>The value formatter\<close>

text \<open>
  \<open>formatValue\<close> is declared to return a string. What a call of it gives at run time is
  the string a branch computes, or what \<open>JSON.stringify\<close> returns, which may be
  \<open>undefined\<close> (\<open>Undef\<close>), or the exception \<open>Object.prototype.toString.call\<close> throws in
  the \<open>catch\<close> block, which nothing catches (\<open>Raised\<close>).
\<close>

datatype formatted = Str string | Undef | Raised js_exception

text \<open>
  \<^verbatim>\<open>
  function formatValue(value: unknown): string {
    if (typeof value === 'string') { return `"${value}"`; }
    if (typeof value === 'number' || typeof value === 'boolean' ||
        value === null || value === undefined) { return String(value); }
    try { return JSON.stringify(value, null, 2); }
    catch { return Object.prototype.toString.call(value); }
  }
  \<close>
\<close>

fun formatValue :: "('n \<Rightarrow> string) \<Rightarrow> 'n jsval \<Rightarrow> formatted" where
  "formatValue numstr (JStr s) = Str ([CHR 0x22] @ s @ [CHR 0x22])"
| "formatValue numstr (JNum n) = Str (numstr n)"
| "formatValue numstr JNaN = Str ''NaN''"
| "formatValue numstr JInfinity = Str ''Infinity''"
| "formatValue numstr JNegInfinity = Str ''-Infinity''"
| "formatValue numstr (JBool b) = Str (if b then ''true'' else ''false'')"
| "formatValue numstr JNull = Str ''null''"
| "formatValue numstr JUndefined = Str ''undefined''"
| "formatValue numstr v =
     (case JSON_stringify numstr v of
        Serialized s \<Rightarrow> Str s
      | NotSerialized \<Rightarrow> Undef
      | Thrown \<Rightarrow> (case Object_toString v of Inl x \<Rightarrow> Raised x | Inr s \<Rightarrow> Str s))"

text \<open>
  The template literal \<open>`p${formatValue(..)}`\<close>: the text \<open>p\<close> followed by the value
  converted to a string; a throw of the call inside it passes (the left summand).
\<close>

fun template :: "string \<Rightarrow> formatted \<Rightarrow> js_exception + string" where
  "template p (Str s) = Inr (p @ s)"
| "template p Undef = Inr (p @ ''undefined'')"
| "template p (Raised x) = Inl x"

section \<open>The unwrap-failure signal\<close>

text \<open>\<open>class UnwrapError extends Error\<close>: the message, the name the constructor sets and
  the preserved payload.\<close>

record 'c UnwrapError =
  message :: string
  name :: string
  causeValue :: 'c

definition new_UnwrapError :: "string \<Rightarrow> 'c \<Rightarrow> 'c UnwrapError" where
  "new_UnwrapError msg cause = \<lparr>message = msg, name = ''UnwrapError'', causeValue = cause\<rparr>"

text \<open>What \<open>unwrap\<close> and \<open>unwrapErr\<close> throw: the \<open>UnwrapError\<close> they create, or the
  exception of \<open>formatValue\<close>, which they let pass.\<close>

datatype 'c unwrap_throw = UnwrapError_thrown "'c UnwrapError" | Exception_thrown js_exception

section \<open>The two variants\<close>

text \<open>\<open>OkImpl\<close> holds \<open>value\<close>, \<open>ErrImpl\<close> holds \<open>error\<close>; \<open>_tag\<close> is the constructor.\<close>

datatype ('t, 'e) Result = Ok (val: 't) | Err (error: 'e)

fun isOk :: "('t, 'e) Result \<Rightarrow> bool" where
  "isOk (Ok v) = True"
| "isOk (Err e) = False"

fun isErr :: "('t, 'e) Result \<Rightarrow> bool" where
  "isErr (Ok v) = False"
| "isErr (Err e) = True"

subsection \<open>unwrap and unwrapErr\<close>

text \<open>
  The optional argument \<open>msg?: string\<close>: left out (\<open>undefined\<close>), \<open>null\<close> (which the
  operator \<open>??\<close> treats as \<open>undefined\<close>), or a string. \<open>msg ?? d\<close> evaluates \<open>d\<close> only when
  \<open>msg\<close> is one of the first two: with a string, a throw of \<open>d\<close> does not happen.
\<close>

datatype msg_arg = NoMsg | NullMsg | Msg string

fun nullish_or :: "msg_arg \<Rightarrow> js_exception + string \<Rightarrow> js_exception + string" where
  "nullish_or (Msg s) d = Inr s"
| "nullish_or NoMsg d = d"
| "nullish_or NullMsg d = d"

text \<open>
  A throw is the left summand, a normal return the right one. The receiver comes first,
  the arguments after it.
  \<^verbatim>\<open>
  unwrap(msg?: string): T {            // ErrImpl
    const message =
      msg ?? `Called unwrap on an Err value: ${formatValue(this.error)}`;
    throw new UnwrapError(message, this.error);
  }
  \<close>
\<close>

fun unwrap :: "('n \<Rightarrow> string) \<Rightarrow> ('t, 'n jsval) Result \<Rightarrow> msg_arg \<Rightarrow> 'n jsval unwrap_throw + 't" where
  "unwrap numstr (Ok v) msg = Inr v"
| "unwrap numstr (Err e) msg =
     (case nullish_or msg (template ''Called unwrap on an Err value: '' (formatValue numstr e)) of
        Inl x \<Rightarrow> Inl (Exception_thrown x)
      | Inr m \<Rightarrow> Inl (UnwrapError_thrown (new_UnwrapError m e)))"

fun unwrapErr :: "('n \<Rightarrow> string) \<Rightarrow> ('n jsval, 'e) Result \<Rightarrow> msg_arg \<Rightarrow> 'n jsval unwrap_throw + 'e" where
  "unwrapErr numstr (Ok v) msg =
     (case nullish_or msg (template ''Called unwrapErr on an Ok value: '' (formatValue numstr v)) of
        Inl x \<Rightarrow> Inl (Exception_thrown x)
      | Inr m \<Rightarrow> Inl (UnwrapError_thrown (new_UnwrapError m v)))"
| "unwrapErr numstr (Err e) msg = Inr e"

subsection \<open>The transformations\<close>

text \<open>
  A callback is a function of the caller's: it returns a value or throws. It is modelled as
  a function into a sum, \<open>Inl x\<close> for a throw of \<open>x\<close>; a method that calls it lets the throw
  pass. So a method that returns normally for a callback that throws at every argument
  has not called it.
\<close>

fun map_res :: "('t, 'e) Result \<Rightarrow> ('t \<Rightarrow> 'x + 'u) \<Rightarrow> 'x + ('u, 'e) Result" where
  "map_res (Ok v) mapper = (case mapper v of Inl x \<Rightarrow> Inl x | Inr u \<Rightarrow> Inr (Ok u))"
| "map_res (Err e) mapper = Inr (Err e)"

fun mapErr :: "('t, 'e) Result \<Rightarrow> ('e \<Rightarrow> 'x + 'f) \<Rightarrow> 'x + ('t, 'f) Result" where
  "mapErr (Ok v) mapper = Inr (Ok v)"
| "mapErr (Err e) mapper = (case mapper e of Inl x \<Rightarrow> Inl x | Inr f \<Rightarrow> Inr (Err f))"

fun andThen :: "('t, 'e) Result \<Rightarrow> ('t \<Rightarrow> 'x + ('u, 'e) Result) \<Rightarrow> 'x + ('u, 'e) Result" where
  "andThen (Ok v) op = op v"
| "andThen (Err e) op = Inr (Err e)"

fun orElse :: "('t, 'e) Result \<Rightarrow> ('e \<Rightarrow> 'x + ('t, 'f) Result) \<Rightarrow> 'x + ('t, 'f) Result" where
  "orElse (Ok v) op = Inr (Ok v)"
| "orElse (Err e) op = op e"

fun and_res :: "('t, 'e) Result \<Rightarrow> ('u, 'e) Result \<Rightarrow> ('u, 'e) Result" where
  "and_res (Ok v) res = res"
| "and_res (Err e) res = Err e"

fun or_res :: "('t, 'e) Result \<Rightarrow> ('t, 'f) Result \<Rightarrow> ('t, 'f) Result" where
  "or_res (Ok v) res = Ok v"
| "or_res (Err e) res = res"


fun unwrapOrElse :: "('t, 'e) Result \<Rightarrow> ('e \<Rightarrow> 'x + 't) \<Rightarrow> 'x + 't" where
  "unwrapOrElse (Ok v) op = Inr v"
| "unwrapOrElse (Err e) op = op e"

fun match_res :: "('t, 'e) Result \<Rightarrow> ('t \<Rightarrow> 'x + 'r) \<Rightarrow> ('e \<Rightarrow> 'x + 'r) \<Rightarrow> 'x + 'r" where
  "match_res (Ok v) matcher_Ok matcher_Err = matcher_Ok v"
| "match_res (Err e) matcher_Ok matcher_Err = matcher_Err e"

fun mapOr :: "('t, 'e) Result \<Rightarrow> 'u \<Rightarrow> ('t \<Rightarrow> 'x + 'u) \<Rightarrow> 'x + 'u" where
  "mapOr (Ok v) defaultValue mapper = mapper v"
| "mapOr (Err e) defaultValue mapper = Inr defaultValue"

fun mapOrElse :: "('t, 'e) Result \<Rightarrow> ('e \<Rightarrow> 'x + 'u) \<Rightarrow> ('t \<Rightarrow> 'x + 'u) \<Rightarrow> 'x + 'u" where
  "mapOrElse (Ok v) defaultFn mapper = mapper v"
| "mapOrElse (Err e) defaultFn mapper = defaultFn e"

text \<open>A pure callback returns and never throws.\<close>

definition returns :: "('a \<Rightarrow> 'b) \<Rightarrow> 'a \<Rightarrow> 'x + 'b" where
  "returns f a = Inr (f a)"

text \<open>A callback that throws \<open>x\<close> whatever it is given.\<close>

definition throws :: "'x \<Rightarrow> 'a \<Rightarrow> 'x + 'b" where
  "throws x a = Inl x"

text \<open>Method chaining \<open>a.m1(..).m2(..)\<close>: the second call is made on what the first
  returned; a throw of the first passes.\<close>

fun then_call :: "'x + 'a \<Rightarrow> ('a \<Rightarrow> 'x + 'b) \<Rightarrow> 'x + 'b" where
  "then_call (Inl x) m = Inl x"
| "then_call (Inr a) m = m a"

text \<open>The message of the \<open>UnwrapError\<close> a call threw, if it threw one.\<close>

definition message_of :: "'c unwrap_throw + 'a \<Rightarrow> string option" where
  "message_of r = (case r of Inl (UnwrapError_thrown u) \<Rightarrow> Some (message u) | _ \<Rightarrow> None)"

section \<open>Adapters from throwing code\<close>

text \<open>
  A zero-argument computation returns a value or throws. An asynchronous one returns a
  promise (or throws before it does); a promise is modelled by how it settles, if it does.
\<close>

datatype ('x, 'a) promise = Fulfilled 'a | Rejected 'x | Pending

text \<open>
  \<open>result.ts\<close> defines no adapter from throwing code. The article that accompanies the
  library lists the pair the spec describes:
  \<^verbatim>\<open>
  export function catches<T, E = unknown>(fn: () => T): Result<T, E> {
    try { return Ok(fn()); } catch (error) { return Err(error as E); }
  }
  export async function catchesAsync<T, E = unknown>(fn: () => Promise<T>): Promise<Result<T, E>> {
    try { return Ok(await fn()); } catch (error) { return Err(error as E); }
  }
  \<close>
\<close>

text \<open>Modelled from the spec: the synchronous adapter, absent from \<open>result.ts\<close>. Input: a
  zero-argument computation. Output: the success wrapping its normal return value, or the
  failure wrapping the caught exception, with no re-raising.\<close>

definition catches :: "(unit \<Rightarrow> 'x + 't) \<Rightarrow> ('t, 'x) Result" where
  "catches fn = (case fn () of Inr v \<Rightarrow> Ok v | Inl thrown \<Rightarrow> Err thrown)"

text \<open>Modelled from the spec: the asynchronous adapter, absent from \<open>result.ts\<close>. The
  computation returns a promise, and so does the adapter: fulfilled with the success
  wrapping the value the promise is fulfilled with, or with the failure wrapping what the
  computation threw or the promise was rejected with; never rejected.\<close>

definition catchesAsync :: "(unit \<Rightarrow> 'x + ('x, 't) promise) \<Rightarrow> ('y, ('t, 'x) Result) promise" where
  "catchesAsync fn =
     (case fn () of
        Inl thrown \<Rightarrow> Fulfilled (Err thrown)
      | Inr p \<Rightarrow>
          (case p of
             Fulfilled v \<Rightarrow> Fulfilled (Ok v)
           | Rejected reason \<Rightarrow> Fulfilled (Err reason)
           | Pending \<Rightarrow> Pending))"

section \<open>Results as objects\<close>

text \<open>
  \<open>new OkImpl(..)\<close> and \<open>new ErrImpl(..)\<close> create an object, and \<open>return this\<close> returns
  the object the method was called on. To tell the two apart, the objects live in a store:
  a list of objects, the address of an object being its index. \<open>new\<close> appends; nothing in
  the classes assigns to a field after the constructor (the fields are \<open>readonly\<close>), so no
  method updates a cell. A method is called on the address \<open>this\<close> of its receiver and
  returns the address of a \<open>Result\<close>, or throws; a call on an address that holds no object
  is no call (\<open>None\<close>).

  A callback runs on the store: it may create objects, and returns or throws. The callback
  of \<open>map\<close> and \<open>mapErr\<close> returns a payload, the one of \<open>andThen\<close> and \<open>orElse\<close> the
  address of a \<open>Result\<close>.
\<close>

type_synonym addr = nat

type_synonym 'v heap = "('v, 'v) Result list"

definition deref :: "'v heap \<Rightarrow> addr \<Rightarrow> ('v, 'v) Result option" where
  "deref h a = (if a < length h then Some (h ! a) else None)"

definition new :: "('v, 'v) Result \<Rightarrow> 'v heap \<Rightarrow> addr \<times> 'v heap" where
  "new ob h = (length h, h @ [ob])"

type_synonym ('v, 'x, 'r) callback = "'v \<Rightarrow> 'v heap \<Rightarrow> ('x + 'r) \<times> 'v heap"

text \<open>What a call gives: nothing when \<open>this\<close> holds no object, else what was thrown or
  returned, and the store after the call.\<close>

type_synonym ('v, 'x, 'r) returned = "(('x + 'r) \<times> 'v heap) option"

type_synonym ('v, 'x) call = "('v, 'x, addr) returned"

definition map_obj :: "addr \<Rightarrow> ('v, 'x, 'v) callback \<Rightarrow> 'v heap \<Rightarrow> ('v, 'x) call" where
  "map_obj this mapper h =
     (case deref h this of
        None \<Rightarrow> None
      | Some (Ok v) \<Rightarrow>
          (case mapper v h of
             (Inl x, h1) \<Rightarrow> Some (Inl x, h1)
           | (Inr u, h1) \<Rightarrow> (case new (Ok u) h1 of (a, h2) \<Rightarrow> Some (Inr a, h2)))
      | Some (Err e) \<Rightarrow> Some (Inr this, h))"

definition mapErr_obj :: "addr \<Rightarrow> ('v, 'x, 'v) callback \<Rightarrow> 'v heap \<Rightarrow> ('v, 'x) call" where
  "mapErr_obj this mapper h =
     (case deref h this of
        None \<Rightarrow> None
      | Some (Ok v) \<Rightarrow> Some (Inr this, h)
      | Some (Err e) \<Rightarrow>
          (case mapper e h of
             (Inl x, h1) \<Rightarrow> Some (Inl x, h1)
           | (Inr f, h1) \<Rightarrow> (case new (Err f) h1 of (a, h2) \<Rightarrow> Some (Inr a, h2))))"

definition andThen_obj :: "addr \<Rightarrow> ('v, 'x, addr) callback \<Rightarrow> 'v heap \<Rightarrow> ('v, 'x) call" where
  "andThen_obj this op h =
     (case deref h this of
        None \<Rightarrow> None
      | Some (Ok v) \<Rightarrow> Some (op v h)
      | Some (Err e) \<Rightarrow> Some (Inr this, h))"

definition orElse_obj :: "addr \<Rightarrow> ('v, 'x, addr) callback \<Rightarrow> 'v heap \<Rightarrow> ('v, 'x) call" where
  "orElse_obj this op h =
     (case deref h this of
        None \<Rightarrow> None
      | Some (Ok v) \<Rightarrow> Some (Inr this, h)
      | Some (Err e) \<Rightarrow> Some (op e h))"

definition and_obj :: "addr \<Rightarrow> addr \<Rightarrow> 'v heap \<Rightarrow> ('v, 'x) call" where
  "and_obj this res h =
     (case deref h this of
        None \<Rightarrow> None
      | Some (Ok v) \<Rightarrow> Some (Inr res, h)
      | Some (Err e) \<Rightarrow> Some (Inr this, h))"

definition or_obj :: "addr \<Rightarrow> addr \<Rightarrow> 'v heap \<Rightarrow> ('v, 'x) call" where
  "or_obj this res h =
     (case deref h this of
        None \<Rightarrow> None
      | Some (Ok v) \<Rightarrow> Some (Inr this, h)
      | Some (Err e) \<Rightarrow> Some (Inr res, h))"

definition unwrapOrElse_obj :: "addr \<Rightarrow> ('v, 'x, 'v) callback \<Rightarrow> 'v heap \<Rightarrow> ('v, 'x, 'v) returned" where
  "unwrapOrElse_obj this op h =
     (case deref h this of
        None \<Rightarrow> None
      | Some (Ok v) \<Rightarrow> Some (Inr v, h)
      | Some (Err e) \<Rightarrow> Some (op e h))"

definition match_obj ::
  "addr \<Rightarrow> ('v, 'x, 'r) callback \<Rightarrow> ('v, 'x, 'r) callback \<Rightarrow> 'v heap \<Rightarrow> ('v, 'x, 'r) returned" where
  "match_obj this matcher_Ok matcher_Err h =
     (case deref h this of
        None \<Rightarrow> None
      | Some (Ok v) \<Rightarrow> Some (matcher_Ok v h)
      | Some (Err e) \<Rightarrow> Some (matcher_Err e h))"

definition mapOr_obj :: "addr \<Rightarrow> 'u \<Rightarrow> ('v, 'x, 'u) callback \<Rightarrow> 'v heap \<Rightarrow> ('v, 'x, 'u) returned" where
  "mapOr_obj this defaultValue mapper h =
     (case deref h this of
        None \<Rightarrow> None
      | Some (Ok v) \<Rightarrow> Some (mapper v h)
      | Some (Err e) \<Rightarrow> Some (Inr defaultValue, h))"

definition mapOrElse_obj ::
  "addr \<Rightarrow> ('v, 'x, 'u) callback \<Rightarrow> ('v, 'x, 'u) callback \<Rightarrow> 'v heap \<Rightarrow> ('v, 'x, 'u) returned" where
  "mapOrElse_obj this defaultFn mapper h =
     (case deref h this of
        None \<Rightarrow> None
      | Some (Ok v) \<Rightarrow> Some (mapper v h)
      | Some (Err e) \<Rightarrow> Some (defaultFn e h))"

text \<open>
  \<open>allocates_only\<close>: the callback creates objects and changes none. \<open>creates h ob c\<close>:
  the call \<open>c\<close> returned an address that holds no object in the store \<open>h\<close> and holds
  \<open>ob\<close> after the call, and every object of \<open>h\<close> is in the store after the call, at its
  address and as it was. \<open>result_of\<close> reads the returned object.
\<close>

definition allocates_only :: "('v, 'x, 'r) callback \<Rightarrow> bool" where
  "allocates_only f = (\<forall>v h. prefix h (snd (f v h)))"


definition result_of :: "('v, 'x) call \<Rightarrow> ('x + ('v, 'v) Result) option" where
  "result_of c =
     (case c of
        None \<Rightarrow> None
      | Some (Inl x, h') \<Rightarrow> Some (Inl x)
      | Some (Inr a, h') \<Rightarrow> map_option Inr (deref h' a))"

subsection \<open>Every method call\<close>

text \<open>
  An operation is a method of the two classes with its arguments, and \<open>invoke\<close> is the
  call \<open>this.m(..)\<close>: it reads the object at \<open>this\<close> and runs the method of its class.
  \<open>isOk\<close>, \<open>isErr\<close>, \<open>unwrap\<close>, \<open>unwrapErr\<close> and \<open>unwrapOr\<close> read the field and
  call nothing (\<open>reads\<close>). Here the payloads are the values of the host language.
\<close>

datatype ('n, 'x) operation =
    IsOk
  | IsErr
  | Map "('n jsval, 'x, 'n jsval) callback"
  | MapErr "('n jsval, 'x, 'n jsval) callback"
  | Unwrap msg_arg
  | UnwrapErr msg_arg
  | UnwrapOr "'n jsval"
  | UnwrapOrElse "('n jsval, 'x, 'n jsval) callback"
  | AndThen "('n jsval, 'x, addr) callback"
  | OrElse "('n jsval, 'x, addr) callback"
  | Match "('n jsval, 'x, 'n jsval) callback" "('n jsval, 'x, 'n jsval) callback"
  | And addr
  | Or addr
  | MapOr "'n jsval" "('n jsval, 'x, 'n jsval) callback"
  | MapOrElse "('n jsval, 'x, 'n jsval) callback" "('n jsval, 'x, 'n jsval) callback"

datatype ('n, 'x) outcome =
    Bool bool
  | Payload "'n jsval"
  | Object addr
  | Throw 'x
  | ThrowUnwrapError "'n jsval UnwrapError"
  | ThrowException js_exception







subsection \<open>Concrete inputs\<close>

text \<open>The decimal numeral of a natural number. Up to \<open>2\<^sup>5\<^sup>3\<close> every natural number is a
  number of the host language, and its numeral is what \<open>Number::toString\<close> gives; it is
  used at such numbers only.\<close>

function decimal :: "nat \<Rightarrow> string" where
  "decimal n = (if n < 10 then [char_of (48 + n)] else decimal (n div 10) @ [char_of (48 + n mod 10)])"
  by pat_completeness auto
termination
  by (relation "measure id") auto

declare decimal.simps [simp del]


definition wrap_ok :: "('v, 'x, addr) callback" where
  "wrap_ok v h = (case new (Ok v) h of (a, h') \<Rightarrow> (Inr a, h'))"

section \<open>Unwrapping\<close>

lemma unwrap_returns:
  "unwrap numstr (Ok v) msg = Inr v"
  "unwrapErr numstr (Err e) msg = Inr e"
  by simp_all

text \<open>With a string as message, and on every payload that \<open>formatValue\<close> formats without a
  throw, the wrong extraction throws an \<open>UnwrapError\<close> that carries the payload.\<close>

lemma unwrap_with_message:
  "unwrap numstr (Err e) (Msg s) = Inl (UnwrapError_thrown (new_UnwrapError s e))"
  "unwrapErr numstr (Ok v) (Msg s) = Inl (UnwrapError_thrown (new_UnwrapError s v))"
  by simp_all

lemma unwrap_formatted:
  assumes "\<And>x. formatValue numstr e \<noteq> Raised x"
  shows "\<exists>u. unwrap numstr (Err e) msg = Inl (UnwrapError_thrown u)
             \<and> name u = ''UnwrapError'' \<and> causeValue u = e"
    and "\<exists>u. unwrapErr numstr (Ok e) msg = Inl (UnwrapError_thrown u)
             \<and> name u = ''UnwrapError'' \<and> causeValue u = e"
  using assms
  by (cases msg; cases "formatValue numstr e"; simp add: new_UnwrapError_def)+

text \<open>\<open>formatValue\<close> throws where \<open>JSON.stringify\<close> and then
  \<open>Object.prototype.toString.call\<close> throw: on a revoked proxy, and on other objects that
  run code of the caller's.\<close>

lemma JSON_stringify_primitive:
  "JSON_stringify numstr (JStr s) \<noteq> Thrown"
  "JSON_stringify numstr (JNum n) \<noteq> Thrown"
  "JSON_stringify numstr JNaN \<noteq> Thrown"
  "JSON_stringify numstr JInfinity \<noteq> Thrown"
  "JSON_stringify numstr JNegInfinity \<noteq> Thrown"
  "JSON_stringify numstr (JBool b) \<noteq> Thrown"
  "JSON_stringify numstr JNull \<noteq> Thrown"
  "JSON_stringify numstr JUndefined \<noteq> Thrown"
  by (simp_all add: JSON_stringify_def SerializeJSONProperty_def)

lemma formatValue_Raised_iff:
  "formatValue numstr v = Raised x
     \<longleftrightarrow> JSON_stringify numstr v = Thrown \<and> Object_toString v = Inl x"
  using JSON_stringify_primitive [of numstr]
  by (cases v) (auto split: json_outcome.splits sum.splits)

lemma formatValue_Raised_cases:
  assumes "formatValue numstr v = Raised x"
  shows "v = JRevokedProxy \<or> (\<exists>s t. v = JExotic s t)"
  using assms unfolding formatValue_Raised_iff
  by (cases v) auto

text \<open>The same on an object on which \<open>JSON.stringify\<close> throws and the
  \<open>Symbol.toStringTag\<close> getter throws \<open>x\<close>.\<close>

lemma unwrap_exotic:
  "unwrap numstr (Err (JExotic (\<lambda>ind. Thrown) (Inl x))) NoMsg = Inl (Exception_thrown x)"
  "unwrapErr numstr (Ok (JExotic (\<lambda>ind. Thrown) (Inl x))) NoMsg = Inl (Exception_thrown x)"
  "\<exists>u. unwrap numstr (Err (JExotic (\<lambda>ind. Thrown) (Inl x))) (Msg s) = Inl (UnwrapError_thrown u)
         \<and> message u = s"
  by (simp_all add: JSON_stringify_def SerializeJSONProperty_def new_UnwrapError_def)

text \<open>
  C1. The claim: for every payload \<open>e\<close>, \<open>Err(e).unwrap()\<close> throws an \<open>UnwrapError\<close>
  whose \<open>causeValue\<close> is \<open>e\<close>, and for every payload \<open>v\<close>, \<open>Ok(v).unwrapErr()\<close> throws one
  whose \<open>causeValue\<close> is \<open>v\<close>. On a revoked \<open>Proxy\<close>, \<open>JSON.stringify\<close> throws, and in the
  \<open>catch\<close> block \<open>Object.prototype.toString.call\<close> throws again: \<open>formatValue\<close> throws a
  \<open>TypeError\<close>. \<open>unwrap\<close> and \<open>unwrapErr\<close> without a message call it before they create
  the \<open>UnwrapError\<close>, so what they throw is the \<open>TypeError\<close>, and no \<open>UnwrapError\<close>.
\<close>

theorem unwrap_revoked_proxy:
  "formatValue numstr JRevokedProxy = Raised TypeError
   \<and> unwrap numstr (Err JRevokedProxy) NoMsg = Inl (Exception_thrown TypeError)
   \<and> unwrapErr numstr (Ok JRevokedProxy) NoMsg = Inl (Exception_thrown TypeError)
   \<and> message_of (unwrap numstr (Err JRevokedProxy) NoMsg) = None
   \<and> message_of (unwrapErr numstr (Ok JRevokedProxy) NoMsg) = None"
  by (simp add: JSON_stringify_def SerializeJSONProperty_def message_of_def)

text \<open>
  C7. \<open>Err("boom").unwrap()\<close> throws an \<open>UnwrapError\<close> whose message contains the quoted
  string \<open>"boom"\<close> (it is \<open>Called unwrap on an Err value: "boom"\<close>) and whose \<open>causeValue\<close>
  is the string \<open>boom\<close>; \<open>Err("boom").unwrap("custom")\<close> throws one whose message is
  exactly \<open>custom\<close>.
\<close>

theorem unwrap_boom:
  \<open>(\<exists>u. unwrap numstr (Err (JStr ''boom'')) NoMsg = Inl (UnwrapError_thrown u)
        \<and> message u = ''Called unwrap on an Err value: "boom"''
        \<and> sublist ''"boom"'' (message u)
        \<and> name u = ''UnwrapError''
        \<and> causeValue u = JStr ''boom'')
   \<and> (\<exists>u. unwrap numstr (Err (JStr ''boom'')) (Msg ''custom'') = Inl (UnwrapError_thrown u)
        \<and> message u = ''custom''
        \<and> name u = ''UnwrapError'')\<close>
proof -
  have "sublist ''\"boom\"'' (''Called unwrap on an Err value: '' @ ''\"boom\"'' @ [])"
    by (rule sublist_appendI)
  then have "sublist ''\"boom\"'' ''Called unwrap on an Err value: \"boom\"''"
    by simp
  then show ?thesis
    by (simp add: new_UnwrapError_def)
qed


section \<open>The repository's tests of unwrap and unwrapErr\<close>

text \<open>What the test file expects of \<open>unwrap\<close> and \<open>unwrapErr\<close>, evaluated on the model.\<close>

lemma tests_unwrap:
  \<open>unwrap decimal (Ok (JStr ''data'')) NoMsg = Inr (JStr ''data'')\<close>
  \<open>unwrap decimal (Err (JStr ''boom'')) NoMsg
     = Inl (UnwrapError_thrown (new_UnwrapError ''Called unwrap on an Err value: "boom"'' (JStr ''boom'')))\<close>
  \<open>message_of (unwrap decimal (Err (JStr ''boom'')) (Msg ''Custom message''))
     = Some ''Custom message''\<close>
  by (simp_all add: message_of_def new_UnwrapError_def)

lemma tests_unwrapErr:
  \<open>unwrapErr decimal (Err (JStr ''error data'')) NoMsg = Inr (JStr ''error data'')\<close>
  \<open>message_of (unwrapErr decimal (Ok (JNum 123)) (Msg ''Custom message''))
     = Some ''Custom message''\<close>
  by (simp_all add: message_of_def new_UnwrapError_def)

lemma decimal_123: "decimal 123 = ''123''"
  by code_simp

lemma tests_unwrapErr_default:
  \<open>unwrapErr decimal (Ok (JNum 123)) NoMsg
     = Inl (UnwrapError_thrown (new_UnwrapError ''Called unwrapErr on an Ok value: 123'' (JNum 123)))\<close>
  by (simp add: decimal_123)

section \<open>Laws of the transformations\<close>

text \<open>
  C2. For every payload \<open>v\<close> and every \<open>op\<close>, \<open>Ok(v).andThen(op)\<close> is \<open>op(v)\<close>. For every
  payload \<open>e\<close> and every \<open>op\<close>, \<open>Err(e).andThen(op)\<close> returns the failure, with the same tag
  and payload, and does not call \<open>op\<close>: it returns also when \<open>op\<close> would throw.
\<close>

theorem andThen_law:
  "andThen (Ok v) op = op v
   \<and> andThen (Err e) op' = Inr (Err e)
   \<and> andThen (Err e) (throws x) = Inr (Err e)"
  by simp

text \<open>
  C3. For every payload \<open>e\<close> and every \<open>op\<close>, \<open>Err(e).orElse(op)\<close> is \<open>op(e)\<close>. For every
  payload \<open>v\<close> and every \<open>op\<close>, \<open>Ok(v).orElse(op)\<close> returns the success, with the same tag
  and payload, and does not call \<open>op\<close>: it returns also when \<open>op\<close> would throw.
\<close>

theorem orElse_law:
  "orElse (Err e) op = op e
   \<and> orElse (Ok v) op' = Inr (Ok v)
   \<and> orElse (Ok v) (throws x) = Inr (Ok v)"
  by simp

lemma map_res_returns: "map_res (Ok v) (returns f) = Inr (Ok (f v))"
  by (simp add: returns_def)

lemma mapErr_returns: "mapErr (Err e) (returns f) = Inr (Err (f e))"
  by (simp add: returns_def)

text \<open>
  C5. For every payload \<open>v\<close>, \<open>Ok(v).map(id)\<close> is \<open>Ok(v)\<close>; for every payload \<open>e\<close>,
  \<open>Err(e).mapErr(id)\<close> is \<open>Err(e)\<close>; and for every \<open>v\<close> and all pure \<open>f\<close> and \<open>g\<close>,
  \<open>Ok(v).map(f).map(g)\<close> is \<open>Ok(v).map(x => g(f(x)))\<close>.
\<close>

theorem map_functor_laws:
  "map_res (Ok v) (returns (\<lambda>x. x)) = Inr (Ok v)
   \<and> mapErr (Err e) (returns (\<lambda>x. x)) = Inr (Err e)
   \<and> then_call (map_res (Ok w) (returns f)) (\<lambda>r. map_res r (returns g))
       = map_res (Ok w) (returns (\<lambda>x. g (f x)))"
  by (simp add: returns_def)

text \<open>
  C6. For every payload \<open>e\<close> and every \<open>f\<close>, \<open>Err(e).map(f)\<close> is \<open>Err(e)\<close>: still an \<open>Err\<close>,
  with the same payload, and \<open>f\<close> is not called: the method returns also when \<open>f\<close> would
  throw.
\<close>

theorem map_short_circuit:
  "map_res (Err e) f = Inr (Err e)
   \<and> map_res (Err e) (throws x) = Inr (Err e)
   \<and> (\<exists>r. map_res (Err e) f = Inr r \<and> isErr r \<and> \<not> isOk r \<and> error r = e)"
  by simp

section \<open>The value formatter on every kind of value\<close>

lemma formatValue_string: \<open>formatValue numstr (JStr s) = Str (''"'' @ s @ ''"'')\<close>
  by simp

lemma formatValue_primitives:
  "formatValue numstr (JNum n) = Str (numstr n)
   \<and> formatValue numstr JNaN = Str ''NaN''
   \<and> formatValue numstr JInfinity = Str ''Infinity''
   \<and> formatValue numstr JNegInfinity = Str ''-Infinity''
   \<and> formatValue numstr (JBool True) = Str ''true''
   \<and> formatValue numstr (JBool False) = Str ''false''
   \<and> formatValue numstr JNull = Str ''null''
   \<and> formatValue numstr JUndefined = Str ''undefined''"
  by simp

lemma formatValue_fallback:
  "formatValue numstr (JBigInt i) = Str ''[object BigInt]''
   \<and> formatValue numstr JCyclicObject = Str ''[object Object]''
   \<and> formatValue numstr JCyclicArray = Str ''[object Array]''"
  by (simp add: JSON_stringify_def SerializeJSONProperty_def)

lemma serialize_value_NotSerialized_iff:
  "serialize_value numstr ind v = NotSerialized
     \<longleftrightarrow> v = JUndefined \<or> (\<exists>d. v = JSymbol d) \<or> (\<exists>c. v = JFunction c)
         \<or> (\<exists>s t. v = JExotic s t \<and> s ind = NotSerialized)"
  by (cases v) (simp_all add: Let_def)

lemma formatValue_array: "\<exists>s. formatValue numstr (JArray vs) = Str s"
  using serialize_value_NotSerialized_iff [of numstr "[]" "JArray vs"]
  by (auto simp: JSON_stringify_def SerializeJSONProperty_def split: json_outcome.splits)

text \<open>An object with a \<open>toJSON\<close> method is formatted as what the method returns is
  serialised: as the quoted string when it returns a string, as \<open>undefined\<close> when it
  returns \<open>undefined\<close>, and by its type tag when it throws. A \<open>toJSON\<close> property that is
  no function is a property like any other.\<close>

lemma formatValue_toJSON:
  \<open>formatValue numstr (JObject [(''toJSON'', JFunction (Returns (JStr ''2020-01-01T00:00:00.000Z'')))])
     = Str ''"2020-01-01T00:00:00.000Z"''\<close>
  \<open>formatValue numstr (JObject [(''toJSON'', JFunction (Returns JUndefined))]) = Undef\<close>
  \<open>formatValue numstr (JObject [(''toJSON'', JFunction Throws)]) = Str ''[object Object]''\<close>
  \<open>formatValue numstr (JObject [(''toJSON'', JNum n)])
     = Str (''{'' @ [CHR 0x0A] @ ''  "toJSON": '' @ numstr n @ [CHR 0x0A] @ ''}'')\<close>
  by (simp_all add: JSON_stringify_def SerializeJSONProperty_def QuoteJSONString_def
      escape_char_def wrap_items_def gap_def)

text \<open>\<open>formatValue\<close> returns \<open>undefined\<close> where \<open>JSON.stringify\<close> does, the value
  \<open>undefined\<close> itself apart: on a function, on a symbol, on an object whose \<open>toJSON\<close>
  method returns one of these or \<open>undefined\<close>, and on other objects that are serialised
  so.\<close>

lemma formatValue_Undef_iff:
  "formatValue numstr v = Undef
     \<longleftrightarrow> v \<noteq> JUndefined \<and> JSON_stringify numstr v = NotSerialized"
  by (cases v)
     (auto simp: JSON_stringify_def SerializeJSONProperty_def
        split: json_outcome.splits sum.splits js_call.splits)

lemma formatValue_Undef_cases:
  "formatValue numstr v = Undef
     \<longleftrightarrow> (\<exists>c. v = JFunction c) \<or> (\<exists>d. v = JSymbol d)
         \<or> (\<exists>s t. v = JExotic s t \<and> s [] = NotSerialized)
         \<or> (\<exists>kvs v'. v = JObject kvs \<and> toJSON_called v = Returns v'
                 \<and> serialize_value numstr [] v' = NotSerialized)"
proof (cases v)
  case (JObject kvs)
  then show ?thesis
    unfolding formatValue_Undef_iff
    by (auto simp: JSON_stringify_def SerializeJSONProperty_def split: js_call.splits)
qed (auto simp: JSON_stringify_def SerializeJSONProperty_def Let_def
       split: json_outcome.splits sum.splits)

text \<open>
  C8. The claim: \<open>formatValue\<close> never fails and returns a string for every value. On a
  function and on a symbol \<open>JSON.stringify\<close> neither throws nor returns a string: it
  returns \<open>undefined\<close>, and so does \<open>formatValue\<close>, against its declared return type. The
  default message of \<open>Err(f).unwrap()\<close> for a function \<open>f\<close> then ends in \<open>undefined\<close>.
\<close>

theorem formatValue_function_undefined:
  "formatValue numstr (JFunction f) = Undef
   \<and> formatValue numstr (JSymbol d) = Undef
   \<and> message_of (unwrap numstr (Err (JFunction f)) NoMsg)
       = Some ''Called unwrap on an Err value: undefined''"
  by (simp add: JSON_stringify_def SerializeJSONProperty_def message_of_def new_UnwrapError_def)

section \<open>The escape hatch\<close>

text \<open>
  C4. The adapter pair takes a zero-argument computation. For a computation that returns
  \<open>v\<close> it yields \<open>Ok(v)\<close>; for one that throws \<open>X\<close> it yields \<open>Err(X)\<close>, and throws nothing
  itself: the synchronous adapter returns a \<open>Result\<close> for every computation, and the
  promise of the asynchronous one is never rejected.
\<close>

theorem catches_law:
  "catches (\<lambda>_. Inr v) = Ok v
   \<and> catches (\<lambda>_. Inl x) = Err x
   \<and> (catches fn = Ok v) = (fn () = Inr v)
   \<and> (catches fn = Err x) = (fn () = Inl x)
   \<and> catchesAsync (\<lambda>_. Inr (Fulfilled v)) = Fulfilled (Ok v)
   \<and> catchesAsync (\<lambda>_. Inr (Rejected x)) = Fulfilled (Err x)
   \<and> catchesAsync (\<lambda>_. Inl x) = Fulfilled (Err x)
   \<and> (\<forall>y. catchesAsync fn \<noteq> Rejected y)"
  by (auto simp: catches_def catchesAsync_def split: sum.splits promise.splits)

section \<open>The methods on objects and on values agree\<close>

text \<open>
  Reading the object a call returns gives the \<open>Result\<close> of the value-level method, with
  the callback seen as a function of the payload alone.
\<close>

lemma map_obj_agrees:
  assumes "deref h this = Some r"
  shows "result_of (map_obj this f h) = Some (map_res r (\<lambda>v. fst (f v h)))"
proof (cases r)
  case (Ok v)
  then show ?thesis
    using assms
    by (cases "f v h") (auto simp: map_obj_def new_def result_of_def deref_def split: sum.splits)
next
  case (Err e)
  then show ?thesis
    using assms by (simp add: map_obj_def result_of_def)
qed

lemma mapErr_obj_agrees:
  assumes "deref h this = Some r"
  shows "result_of (mapErr_obj this f h) = Some (mapErr r (\<lambda>v. fst (f v h)))"
proof (cases r)
  case (Ok v)
  then show ?thesis
    using assms by (simp add: mapErr_obj_def result_of_def)
next
  case (Err e)
  then show ?thesis
    using assms
    by (cases "f e h") (auto simp: mapErr_obj_def new_def result_of_def deref_def split: sum.splits)
qed

lemma andThen_obj_agrees:
  assumes "deref h this = Some r"
    and "\<And>v. result_of (Some (op v h)) = Some (op' v)"
  shows "result_of (andThen_obj this op h) = Some (andThen r op')"
  using assms by (cases r) (simp_all add: andThen_obj_def result_of_def)

lemma orElse_obj_agrees:
  assumes "deref h this = Some r"
    and "\<And>v. result_of (Some (op v h)) = Some (op' v)"
  shows "result_of (orElse_obj this op h) = Some (orElse r op')"
  using assms by (cases r) (simp_all add: orElse_obj_def result_of_def)

lemma and_obj_agrees:
  assumes "deref h this = Some r" and "deref h res = Some r'"
  shows "result_of (and_obj this res h) = Some (Inr (and_res r r'))"
  using assms by (cases r) (simp_all add: and_obj_def result_of_def)

lemma or_obj_agrees:
  assumes "deref h this = Some r" and "deref h res = Some r'"
  shows "result_of (or_obj this res h) = Some (Inr (or_res r r'))"
  using assms by (cases r) (simp_all add: or_obj_def result_of_def)

lemma unwrapOrElse_obj_agrees:
  assumes "deref h this = Some r"
  shows "map_option fst (unwrapOrElse_obj this op h) = Some (unwrapOrElse r (\<lambda>e. fst (op e h)))"
  using assms by (cases r) (simp_all add: unwrapOrElse_obj_def)

lemma match_obj_agrees:
  assumes "deref h this = Some r"
  shows "map_option fst (match_obj this f g h)
           = Some (match_res r (\<lambda>v. fst (f v h)) (\<lambda>e. fst (g e h)))"
  using assms by (cases r) (simp_all add: match_obj_def)

lemma mapOr_obj_agrees:
  assumes "deref h this = Some r"
  shows "map_option fst (mapOr_obj this d f h) = Some (mapOr r d (\<lambda>v. fst (f v h)))"
  using assms by (cases r) (simp_all add: mapOr_obj_def)

lemma mapOrElse_obj_agrees:
  assumes "deref h this = Some r"
  shows "map_option fst (mapOrElse_obj this g f h)
           = Some (mapOrElse r (\<lambda>e. fst (g e h)) (\<lambda>v. fst (f v h)))"
  using assms by (cases r) (simp_all add: mapOrElse_obj_def)

section \<open>Object identity of the transformations\<close>








lemma allocates_only_wrap_ok: "allocates_only wrap_ok"
  by (simp add: allocates_only_def wrap_ok_def new_def)



end
